theory Spec2Isabelle
  imports Main
begin

section \<open>Configuration of gobot-brightness (internal/config/config.go)\<close>

text \<open>
  A shallow embedding of \<^verbatim>\<open>internal/config/config.go\<close>. Go's \<^verbatim>\<open>int\<close> is
  modelled as \<open>int\<close>: the file adds, multiplies or subtracts nothing, so no operation of
  it can overflow; the width only matters where \<^verbatim>\<open>strconv.Atoi\<close> refuses a number that
  does not fit. A Go string is a byte sequence, here a \<open>string\<close>.
\<close>

subsection \<open>Constants\<close>

definition BotName :: string where
  "BotName = ''gobot_lux''"

definition defaultLogSensor :: bool where
  "defaultLogSensor = False"

definition defaultIntervalSeconds :: int where
  "defaultIntervalSeconds = 30"

definition defaultMetricConfig :: string where
  "defaultMetricConfig = '':9194''"

definition maxStatsBucketSeconds :: int where
  "maxStatsBucketSeconds = 7200"

definition defaultStatsBucketsSeconds :: "int list" where
  "defaultStatsBucketsSeconds = [15, 30, 60, 120, 300, 600, 1800]"

subsection \<open>The configuration value\<close>

text \<open>
  \<^verbatim>\<open>Config\<close> embeds \<^verbatim>\<open>MqttConfig\<close> and \<^verbatim>\<open>SensorConfig\<close>, whose declarations are in
  other files of the package. Of \<^verbatim>\<open>MqttConfig\<close> this file reads and writes the five
  string fields below. Of \<^verbatim>\<open>SensorConfig\<close> it reads \<^verbatim>\<open>AioPollingIntervalMs\<close> and
  calls \<^verbatim>\<open>defaultSensorConfig\<close>, \<^verbatim>\<open>ConfigFromEnv\<close>, \<^verbatim>\<open>Validate\<close> and \<^verbatim>\<open>Print\<close>; its
  remaining fields are kept abstract in \<open>sensorRest\<close>, and the functions are parameters
  of the definitions that call them.
\<close>

record MqttConfig =
  Host :: string
  Topic :: string
  StatsTopic :: string
  ClientKeyFile :: string
  ClientCertFile :: string

record 'r SensorConfig =
  AioPollingIntervalMs :: int
  sensorRest :: 'r

record 'r Config =
  Placement :: string
  MetricConfig :: string
  IntervalSecs :: int
  StatIntervals :: "int list"
  LogSensor :: bool
  MqttConfig :: MqttConfig
  SensorConfig :: "'r SensorConfig"

text \<open>The zero value of \<^verbatim>\<open>MqttConfig\<close>: \<^verbatim>\<open>DefaultConfig\<close> does not set the field.\<close>

definition zeroMqttConfig :: MqttConfig where
  "zeroMqttConfig =
     \<lparr>Host = [], Topic = [], StatsTopic = [], ClientKeyFile = [], ClientCertFile = []\<rparr>"

text \<open>
  \<^verbatim>\<open>DefaultConfig\<close>; the argument is the value of \<^verbatim>\<open>defaultSensorConfig()\<close>.
  \<^verbatim>\<open>Placement\<close> is not set either and so is the empty string. \<^verbatim>\<open>StatIntervals\<close> is
  the package-level slice, taken with the contents it is initialised with.
\<close>

definition DefaultConfig :: "'r SensorConfig \<Rightarrow> 'r Config" where
  "DefaultConfig defaultSensorConfig =
     \<lparr>Placement = [],
      MetricConfig = defaultMetricConfig,
      IntervalSecs = defaultIntervalSeconds,
      StatIntervals = defaultStatsBucketsSeconds,
      LogSensor = defaultLogSensor,
      MqttConfig = zeroMqttConfig,
      SensorConfig = defaultSensorConfig\<rparr>"

subsection \<open>Library functions the file calls\<close>

text \<open>
  The process environment is a partial map from names to values; \<^verbatim>\<open>os.Getenv\<close>
  returns the empty string for a variable that is not set.
\<close>

type_synonym environ = "string \<Rightarrow> string option"

definition Getenv :: "environ \<Rightarrow> string \<Rightarrow> string" where
  "Getenv env name = (case env name of None \<Rightarrow> [] | Some val \<Rightarrow> val)"

text \<open>
  \<^verbatim>\<open>strings.ToUpper\<close> on the bytes \<^verbatim>\<open>a\<close> to \<^verbatim>\<open>z\<close>. Every string the file passes to
  it is an ASCII constant; other bytes are left as they are.
\<close>

definition upperByte :: "char \<Rightarrow> char" where
  "upperByte c =
     (let n = (of_char c :: nat) in if 97 \<le> n \<and> n \<le> 122 then char_of (n - 32) else c)"

definition ToUpper :: "string \<Rightarrow> string" where
  "ToUpper s = map upperByte s"

text \<open>
  Errors are values. \<open>Foreign\<close> is an error made outside this file (by the sensor
  sub-configuration or by \<^verbatim>\<open>encoding/json\<close>) and passed on, with its message; \<open>ValidationErrors\<close> is
  what the validator engine returns, one entry for each field that fails a rule, with
  the field and the rule that failed. The other constructors are the errors the file
  makes itself, with the values its messages print.

  \<^verbatim>\<open>strconv.Atoi\<close> and \<^verbatim>\<open>strconv.ParseBool\<close> return a \<^verbatim>\<open>*NumError\<close> on failure.
  \<^verbatim>\<open>Atoi\<close> accepts an optional sign followed by at least one decimal digit and nothing
  else, and refuses a value outside the range of \<^verbatim>\<open>int\<close> (64 bits here).
\<close>

datatype FieldError =
    FieldError string string
  | ElementError string nat string

datatype error =
    NotDefined
  | NumError
  | EmptyArray
  | CouldNotRead string
  | Foreign string
  | ValidationErrors "FieldError list"
  | EmptyLocation
  | IntervalTooLow int
  | IntervalBelowAio int int
  | IntervalTooHigh int
  | StatsMinTooLow int
  | StatsMaxTooHigh int int

definition intSize :: nat where
  "intSize = 64"

definition digitVal :: "char \<Rightarrow> int option" where
  "digitVal c =
     (let n = (of_char c :: nat) in if 48 \<le> n \<and> n \<le> 57 then Some (int n - 48) else None)"

fun parseDigits :: "int \<Rightarrow> string \<Rightarrow> int option" where
  "parseDigits n [] = Some n"
| "parseDigits n (ch # s) =
     (case digitVal ch of None \<Rightarrow> None | Some d \<Rightarrow> parseDigits (n * 10 + d) s)"

definition Atoi :: "string \<Rightarrow> error + int" where
  "Atoi s0 =
     (case s0 of
        [] \<Rightarrow> Inl NumError
      | c # r \<Rightarrow>
          (let s = (if c = CHR ''-'' \<or> c = CHR ''+'' then r else s0) in
           if s = [] then Inl NumError
           else (case parseDigits 0 s of
                   None \<Rightarrow> Inl NumError
                 | Some n \<Rightarrow>
                     (let v = (if c = CHR ''-'' then - n else n) in
                      if v < - (2 ^ (intSize - 1)) \<or> 2 ^ (intSize - 1) - 1 < v
                      then Inl NumError else Inr v))))"

definition ParseBool :: "string \<Rightarrow> error + bool" where
  "ParseBool str =
     (if str \<in> set [''1'', ''t'', ''T'', ''true'', ''TRUE'', ''True''] then Inr True
      else if str \<in> set [''0'', ''f'', ''F'', ''false'', ''FALSE'', ''False''] then Inr False
      else Inl NumError)"

subsection \<open>Reading the environment\<close>

definition computeEnvName :: "string \<Rightarrow> string" where
  "computeEnvName name = ToUpper BotName @ ''_'' @ ToUpper name"

definition fromEnv :: "environ \<Rightarrow> string \<Rightarrow> error + string" where
  "fromEnv env name =
     (let val = Getenv env (computeEnvName name) in
      if val = [] then Inl NotDefined else Inr val)"

definition fromEnvInt :: "environ \<Rightarrow> string \<Rightarrow> error + int" where
  "fromEnvInt env name =
     (case fromEnv env name of
        Inl err \<Rightarrow> Inl err
      | Inr val \<Rightarrow> (case Atoi val of Inl err \<Rightarrow> Inl err | Inr parsed \<Rightarrow> Inr parsed))"

definition fromEnvBool :: "environ \<Rightarrow> string \<Rightarrow> error + bool" where
  "fromEnvBool env name =
     (case fromEnv env name of
        Inl err \<Rightarrow> Inl err
      | Inr val \<Rightarrow> (case ParseBool val of Inl err \<Rightarrow> Inl err | Inr parsed \<Rightarrow> Inr parsed))"

text \<open>
  \<^verbatim>\<open>ConfigFromEnv\<close>: nine lookups one after the other, each assigning its field only
  when the lookup returned no error, and then the sensor sub-configuration's own
  \<^verbatim>\<open>ConfigFromEnv\<close> on the embedded value. That method is declared in another file; it
  is the parameter \<open>sensorConfigFromEnv\<close>, which reads the same environment.
\<close>

definition ConfigFromEnv ::
  "'r SensorConfig \<Rightarrow> (environ \<Rightarrow> 'r SensorConfig \<Rightarrow> 'r SensorConfig) \<Rightarrow> environ \<Rightarrow> 'r Config"
where
  "ConfigFromEnv defaultSensorConfig sensorConfigFromEnv env =
     (let conf = DefaultConfig defaultSensorConfig;
          conf = (case fromEnv env ''LOCATION'' of
                    Inr location \<Rightarrow> conf\<lparr>Placement := location\<rparr> | Inl err \<Rightarrow> conf);
          conf = (case fromEnvBool env ''LOG_SENSOR'' of
                    Inr logValues \<Rightarrow> conf\<lparr>LogSensor := logValues\<rparr> | Inl err \<Rightarrow> conf);
          conf = (case fromEnvInt env ''INTERVAL_S'' of
                    Inr intervalSeconds \<Rightarrow> conf\<lparr>IntervalSecs := intervalSeconds\<rparr>
                  | Inl err \<Rightarrow> conf);
          conf = (case fromEnv env ''MQTT_HOST'' of
                    Inr mqttHost \<Rightarrow> conf\<lparr>MqttConfig := (MqttConfig conf)\<lparr>Host := mqttHost\<rparr>\<rparr>
                  | Inl err \<Rightarrow> conf);
          conf = (case fromEnv env ''MQTT_TOPIC'' of
                    Inr mqttTopic \<Rightarrow> conf\<lparr>MqttConfig := (MqttConfig conf)\<lparr>Topic := mqttTopic\<rparr>\<rparr>
                  | Inl err \<Rightarrow> conf);
          conf = (case fromEnv env ''MQTT_STATS_TOPIC'' of
                    Inr mqttStatsTopic \<Rightarrow>
                      conf\<lparr>MqttConfig := (MqttConfig conf)\<lparr>StatsTopic := mqttStatsTopic\<rparr>\<rparr>
                  | Inl err \<Rightarrow> conf);
          conf = (case fromEnv env ''METRICS_ADDR'' of
                    Inr metricConfig \<Rightarrow> conf\<lparr>MetricConfig := metricConfig\<rparr> | Inl err \<Rightarrow> conf);
          conf = (case fromEnv env ''SSL_CLIENT_KEY_FILE'' of
                    Inr clientKeyFile \<Rightarrow>
                      conf\<lparr>MqttConfig := (MqttConfig conf)\<lparr>ClientKeyFile := clientKeyFile\<rparr>\<rparr>
                  | Inl err \<Rightarrow> conf);
          conf = (case fromEnv env ''SSL_CLIENT_CERT_FILE'' of
                    Inr clientCertFile \<Rightarrow>
                      conf\<lparr>MqttConfig := (MqttConfig conf)\<lparr>ClientCertFile := clientCertFile\<rparr>\<rparr>
                  | Inl err \<Rightarrow> conf);
          conf = conf\<lparr>SensorConfig := sensorConfigFromEnv env (SensorConfig conf)\<rparr>
      in conf)"

subsection \<open>Reading a file\<close>

text \<open>
  \<^verbatim>\<open>ReadJsonConfig\<close> returns a pointer, \<^verbatim>\<open>nil\<close> being \<open>None\<close>, and an error. The file
  system is \<open>ReadFile\<close>, giving the content of a path or the message of the error of
  \<^verbatim>\<open>os.ReadFile\<close>. \<^verbatim>\<open>json.Unmarshal\<close> is the parameter \<open>Unmarshal\<close>: from the bytes and
  the value its second argument points to, the value it leaves there and the message
  of its error, if any.
\<close>

definition ReadJsonConfig ::
  "(string \<Rightarrow> string + string) \<Rightarrow> (string \<Rightarrow> 'r Config \<Rightarrow> 'r Config \<times> string option) \<Rightarrow>
   'r SensorConfig \<Rightarrow> string \<Rightarrow> 'r Config option \<times> error option"
where
  "ReadJsonConfig ReadFile Unmarshal defaultSensorConfig filePath =
     (case ReadFile filePath of
        Inl err \<Rightarrow> (None, Some (CouldNotRead err))
      | Inr fileContent \<Rightarrow>
          (let ret = DefaultConfig defaultSensorConfig;
               (ret, err) = Unmarshal fileContent ret
           in (Some ret, map_option Foreign err)))"

subsection \<open>The statistics buckets\<close>

text \<open>
  Both functions return \<^verbatim>\<open>-1\<close> and an error on the empty slice, and otherwise scan the
  slice from its first element, which is also the start value.
\<close>

definition GetStatIntervalMin :: "'r Config \<Rightarrow> int \<times> error option" where
  "GetStatIntervalMin conf =
     (if length (StatIntervals conf) = 0 then (- 1, Some EmptyArray)
      else (fold (\<lambda>val min. if val < min then val else min)
              (StatIntervals conf) (StatIntervals conf ! 0), None))"

definition GetStatIntervalMax :: "'r Config \<Rightarrow> int \<times> error option" where
  "GetStatIntervalMax conf =
     (if length (StatIntervals conf) = 0 then (- 1, Some EmptyArray)
      else (fold (\<lambda>val max. if val > max then val else max)
              (StatIntervals conf) (StatIntervals conf ! 0), None))"

subsection \<open>Validation\<close>

text \<open>
  Go's \<^verbatim>\<open>/\<close> on integers truncates towards zero, where \<open>div\<close> rounds down. The only
  divisor in the file is the constant 1000.
\<close>

definition quo :: "int \<Rightarrow> int \<Rightarrow> int" where
  "quo a b = (if (a < 0) = (b < 0) then \<bar>a\<bar> div \<bar>b\<bar> else - (\<bar>a\<bar> div \<bar>b\<bar>))"

text \<open>
  \<^verbatim>\<open>Validat2e\<close>, the sequential checks. \<open>sensorValidate\<close> is \<^verbatim>\<open>SensorConfig.Validate\<close>,
  giving the message of its error, if any; that error is returned as it is.
\<close>

definition Validat2e :: "('r SensorConfig \<Rightarrow> string option) \<Rightarrow> 'r Config \<Rightarrow> error option" where
  "Validat2e sensorValidate conf =
     (if Placement conf = [] then Some EmptyLocation
      else if IntervalSecs conf < 1 then Some (IntervalTooLow (IntervalSecs conf))
      else if IntervalSecs conf < quo (AioPollingIntervalMs (SensorConfig conf)) 1000
        then Some (IntervalBelowAio (quo (AioPollingIntervalMs (SensorConfig conf)) 1000)
                     (IntervalSecs conf))
      else if IntervalSecs conf > 300 then Some (IntervalTooHigh (IntervalSecs conf))
      else (case sensorValidate (SensorConfig conf) of
              Some err \<Rightarrow> Some (Foreign err)
            | None \<Rightarrow>
                if length (StatIntervals conf) > 0 then
                  (let min = fst (GetStatIntervalMin conf) in
                   if min < 1 then Some (StatsMinTooLow min)
                   else (let max = fst (GetStatIntervalMax conf) in
                         if max > maxStatsBucketSeconds
                         then Some (StatsMaxTooHigh maxStatsBucketSeconds max)
                         else None))
                else None))"

text \<open>
  \<^verbatim>\<open>Validate\<close>, the declarative path: the validator engine applied to the tags of
  \<^verbatim>\<open>Config\<close>. The engine visits the fields in the order of their declaration and
  collects one error for each field (and each element under \<^verbatim>\<open>dive\<close>) at the first tag
  that fails; it returns \<^verbatim>\<open>nil\<close> when it collected none.
  \<^item> \<^verbatim>\<open>Placement\<close>, \<^verbatim>\<open>required\<close>: not the empty string.
  \<^item> \<^verbatim>\<open>MetricConfig\<close>, \<^verbatim>\<open>omitempty,tcp_addr\<close>: nothing is checked on the empty string;
    \<open>tcp_addr\<close> is the engine's own predicate, a parameter here.
  \<^item> \<^verbatim>\<open>IntervalSecs\<close>, \<^verbatim>\<open>min=1,max=300\<close>.
  \<^item> \<^verbatim>\<open>StatIntervals\<close>, \<^verbatim>\<open>dive,min=10,max=3600\<close>: both bounds on every element.
  \<^item> \<^verbatim>\<open>LogSensor\<close> has no tag.
  \<^item> The embedded structs are visited too; their tags are declared in other files, and
    \<open>mqttRules\<close> and \<open>sensorRules\<close> are the errors the engine collects in them.
  The two custom rules registered once before the first use have non-empty names and
  functions, so that their registration does not fail.
\<close>

definition diveStatIntervals :: "nat \<Rightarrow> int list \<Rightarrow> FieldError list" where
  "diveStatIntervals i vals =
     concat (map (\<lambda>(j, val).
                    if val < 10 then [ElementError ''StatIntervals'' j ''min'']
                    else if val > 3600 then [ElementError ''StatIntervals'' j ''max'']
                    else [])
               (enumerate i vals))"

definition Validate ::
  "(string \<Rightarrow> bool) \<Rightarrow> (MqttConfig \<Rightarrow> FieldError list) \<Rightarrow>
   ('r SensorConfig \<Rightarrow> FieldError list) \<Rightarrow> 'r Config \<Rightarrow> error option"
where
  "Validate tcp_addr mqttRules sensorRules conf =
     (let errs =
            (if Placement conf = [] then [FieldError ''Placement'' ''required''] else [])
          @ (if MetricConfig conf \<noteq> [] \<and> \<not> tcp_addr (MetricConfig conf)
             then [FieldError ''MetricConfig'' ''tcp_addr''] else [])
          @ (if IntervalSecs conf < 1 then [FieldError ''IntervalSecs'' ''min'']
             else if IntervalSecs conf > 300 then [FieldError ''IntervalSecs'' ''max'']
             else [])
          @ diveStatIntervals 0 (StatIntervals conf)
          @ mqttRules (MqttConfig conf)
          @ sensorRules (SensorConfig conf)
      in if errs = [] then None else Some (ValidationErrors errs))"

subsection \<open>Concrete values\<close>

text \<open>
  Sensor sub-configurations with nothing but \<^verbatim>\<open>AioPollingIntervalMs\<close>, a valid
  configuration, three environments, and a file system with one file, whose content is
  not a complete JSON document. The theorems below are instantiated on them.
\<close>

definition sampleSensorConfig :: "unit SensorConfig" where
  "sampleSensorConfig = \<lparr>AioPollingIntervalMs = 0, sensorRest = ()\<rparr>"

definition sampleConfig :: "unit Config" where
  "sampleConfig = (DefaultConfig sampleSensorConfig)\<lparr>Placement := ''kitchen''\<rparr>"

definition slowSensorConfig :: "unit SensorConfig" where
  "slowSensorConfig = \<lparr>AioPollingIntervalMs = 400000, sensorRest = ()\<rparr>"

definition intervalEnv :: environ where
  "intervalEnv = [''GOBOT_LUX_INTERVAL_S'' \<mapsto> ''45'']"

definition malformedEnv :: environ where
  "malformedEnv =
     [''GOBOT_LUX_INTERVAL_S'' \<mapsto> ''notanumber'', ''GOBOT_LUX_LOG_SENSOR'' \<mapsto> ''true'']"

definition emptyValueEnv :: environ where
  "emptyValueEnv = [''GOBOT_LUX_LOCATION'' \<mapsto> [], ''GOBOT_LUX_METRICS_ADDR'' \<mapsto> []]"

definition sampleReadFile :: "string \<Rightarrow> string + string" where
  "sampleReadFile path =
     (if path = ''config.json'' then Inr ''{'' else Inl ''no such file or directory'')"

definition sampleUnmarshal :: "string \<Rightarrow> unit Config \<Rightarrow> unit Config \<times> string option" where
  "sampleUnmarshal data v =
     (if data = ''{'' then (v, Some ''unexpected end of JSON input'') else (v, None))"

section \<open>Properties\<close>

subsection \<open>Minimum and maximum of the statistics buckets\<close>

lemma fold_less_min: "fold (\<lambda>val m. if val < m then val else m) xs (a::int) = fold min xs a"
proof -
  have "(\<lambda>val m. if val < m then val else m) = (min :: int \<Rightarrow> int \<Rightarrow> int)"
    by (intro ext) (simp add: min_def)
  then show ?thesis by simp
qed

lemma fold_greater_max: "fold (\<lambda>val m. if val > m then val else m) xs (a::int) = fold max xs a"
proof -
  have "(\<lambda>val m. if val > m then val else m) = (max :: int \<Rightarrow> int \<Rightarrow> int)"
    by (intro ext) (simp add: max_def)
  then show ?thesis by simp
qed

lemma GetStatIntervalMin_nonempty:
  assumes "StatIntervals conf \<noteq> []"
  shows "GetStatIntervalMin conf = (Min (set (StatIntervals conf)), None)"
proof -
  obtain x r where xr: "StatIntervals conf = x # r"
    using assms by (cases "StatIntervals conf") auto
  have "fold min (x # r) x = fold min r x" by simp
  also have "\<dots> = Min (set (x # r))" by (simp only: Min.set_eq_fold)
  finally show ?thesis
    by (simp add: GetStatIntervalMin_def xr fold_less_min)
qed

lemma GetStatIntervalMax_nonempty:
  assumes "StatIntervals conf \<noteq> []"
  shows "GetStatIntervalMax conf = (Max (set (StatIntervals conf)), None)"
proof -
  obtain x r where xr: "StatIntervals conf = x # r"
    using assms by (cases "StatIntervals conf") auto
  have "fold max (x # r) x = fold max r x" by simp
  also have "\<dots> = Max (set (x # r))" by (simp only: Max.set_eq_fold)
  finally show ?thesis
    by (simp add: GetStatIntervalMax_def xr fold_greater_max)
qed

lemma GetStatInterval_empty:
  assumes "StatIntervals conf = []"
  shows "GetStatIntervalMin conf = (- 1, Some EmptyArray)"
    and "GetStatIntervalMax conf = (- 1, Some EmptyArray)"
  using assms by (simp_all add: GetStatIntervalMin_def GetStatIntervalMax_def)

text \<open>
  Claim C7. On a non-empty list \<^verbatim>\<open>GetStatIntervalMin\<close> returns the least element and
  \<^verbatim>\<open>GetStatIntervalMax\<close> the greatest, each with a nil error; on the default buckets
  they return 15 and 1800; on the empty list each of them returns an error (with -1).
\<close>

theorem GetStatInterval_min_max:
  "(StatIntervals conf \<noteq> [] \<longrightarrow>
      GetStatIntervalMin conf = (Min (set (StatIntervals conf)), None) \<and>
      GetStatIntervalMax conf = (Max (set (StatIntervals conf)), None)) \<and>
   (StatIntervals conf = [15, 30, 60, 120, 300, 600, 1800] \<longrightarrow>
      GetStatIntervalMin conf = (15, None) \<and> GetStatIntervalMax conf = (1800, None)) \<and>
   (StatIntervals conf = [] \<longrightarrow>
      GetStatIntervalMin conf = (- 1, Some EmptyArray) \<and>
      GetStatIntervalMax conf = (- 1, Some EmptyArray))"
proof (intro conjI impI)
  assume "StatIntervals conf = [15, 30, 60, 120, 300, 600, 1800]"
  then show "GetStatIntervalMin conf = (15, None)" "GetStatIntervalMax conf = (1800, None)"
    by (simp_all add: GetStatIntervalMin_def GetStatIntervalMax_def)
qed (simp_all add: GetStatIntervalMin_nonempty GetStatIntervalMax_nonempty GetStatInterval_empty)

theorem GetStatInterval_min_max_witness:
  "StatIntervals sampleConfig = [15, 30, 60, 120, 300, 600, 1800] \<and>
   GetStatIntervalMin sampleConfig = (Min (set (StatIntervals sampleConfig)), None) \<and>
   GetStatIntervalMax sampleConfig = (Max (set (StatIntervals sampleConfig)), None) \<and>
   GetStatIntervalMin sampleConfig = (15, None) \<and>
   GetStatIntervalMax sampleConfig = (1800, None) \<and>
   StatIntervals (sampleConfig\<lparr>StatIntervals := []\<rparr>) = [] \<and>
   GetStatIntervalMin (sampleConfig\<lparr>StatIntervals := []\<rparr>) = (- 1, Some EmptyArray) \<and>
   GetStatIntervalMax (sampleConfig\<lparr>StatIntervals := []\<rparr>) = (- 1, Some EmptyArray)"
proof -
  have s: "StatIntervals sampleConfig = [15, 30, 60, 120, 300, 600, 1800]"
    by (simp add: sampleConfig_def DefaultConfig_def defaultStatsBucketsSeconds_def)
  have e: "StatIntervals (sampleConfig\<lparr>StatIntervals := []\<rparr>) = []"
    by simp
  show ?thesis
    using s e GetStatInterval_min_max [of sampleConfig]
      GetStatInterval_min_max [of "sampleConfig\<lparr>StatIntervals := []\<rparr>"]
    by simp
qed

subsection \<open>The sequential validation\<close>

lemma quo_1000_nonneg: "0 \<le> a \<Longrightarrow> quo a 1000 = a div 1000"
  by (simp add: quo_def)

lemma quo_1000_neg: "a < 0 \<Longrightarrow> quo a 1000 = - ((- a) div 1000)"
  by (simp add: quo_def)

lemma div_1000_bounds:
  fixes b :: int
  assumes "0 \<le> b"
  shows "0 \<le> b div 1000 * 1000" "b div 1000 * 1000 \<le> b" "b - b div 1000 * 1000 < 1000"
proof -
  have m: "b div 1000 * 1000 + b mod 1000 = b" by simp
  have r: "0 \<le> b mod 1000" "b mod 1000 < 1000" by simp_all
  show "0 \<le> b div 1000 * 1000" using assms by (simp add: pos_imp_zdiv_nonneg_iff)
  show "b div 1000 * 1000 \<le> b" using m r by linarith
  show "b - b div 1000 * 1000 < 1000" using m r by linarith
qed

lemma quo_1000_truncates:
  "\<bar>quo a 1000 * 1000\<bar> \<le> \<bar>a\<bar> \<and> \<bar>a - quo a 1000 * 1000\<bar> < 1000"
proof (cases "0 \<le> a")
  case True
  from div_1000_bounds [OF True] True show ?thesis
    by (simp add: quo_1000_nonneg)
next
  case False
  then have n: "0 \<le> - a" by simp
  from div_1000_bounds [OF n] False show ?thesis
    by (simp add: quo_1000_neg)
qed

lemma Validat2e_stats:
  assumes "Placement conf \<noteq> []" "1 \<le> IntervalSecs conf"
    "\<not> IntervalSecs conf < quo (AioPollingIntervalMs (SensorConfig conf)) 1000"
    "IntervalSecs conf \<le> 300" "sensorValidate (SensorConfig conf) = None"
    "StatIntervals conf \<noteq> []"
  shows "Validat2e sensorValidate conf =
           (if Min (set (StatIntervals conf)) < 1
            then Some (StatsMinTooLow (Min (set (StatIntervals conf))))
            else if 7200 < Max (set (StatIntervals conf))
            then Some (StatsMaxTooHigh 7200 (Max (set (StatIntervals conf))))
            else None)"
  using assms
  by (simp add: Validat2e_def GetStatIntervalMin_nonempty GetStatIntervalMax_nonempty
      maxStatsBucketSeconds_def Let_def)

lemma Validat2e_no_stats:
  assumes "Placement conf \<noteq> []" "1 \<le> IntervalSecs conf"
    "\<not> IntervalSecs conf < quo (AioPollingIntervalMs (SensorConfig conf)) 1000"
    "IntervalSecs conf \<le> 300" "sensorValidate (SensorConfig conf) = None"
    "StatIntervals conf = []"
  shows "Validat2e sensorValidate conf = None"
  using assms by (simp add: Validat2e_def)

lemma sampleConfig_fields:
  "Placement sampleConfig = ''kitchen''"
  "IntervalSecs sampleConfig = 30"
  "StatIntervals sampleConfig = [15, 30, 60, 120, 300, 600, 1800]"
  "AioPollingIntervalMs (SensorConfig sampleConfig) = 0"
  by (simp_all add: sampleConfig_def DefaultConfig_def sampleSensorConfig_def
      defaultIntervalSeconds_def defaultStatsBucketsSeconds_def)

text \<open>
  Claim C2. Let \<^verbatim>\<open>Placement\<close> be non-empty, \<^verbatim>\<open>AioPollingIntervalMs\<close> be 0, the sensor
  sub-configuration be valid and every statistics bucket lie in \<open>[1, 7200]\<close> (the rule
  of the sequential path, which every list with elements in \<open>[10, 3600]\<close> satisfies,
  and the empty list). Then \<^verbatim>\<open>Validat2e\<close> returns nil exactly when
  \<open>1 \<le> IntervalSecs \<le> 300\<close>; for 0 it returns the lower-bound error and for 301 the
  upper-bound error.
\<close>

theorem Validat2e_interval_bounds:
  assumes "Placement conf \<noteq> []"
    and "AioPollingIntervalMs (SensorConfig conf) = 0"
    and "sensorValidate (SensorConfig conf) = None"
    and "\<forall>x\<in>set (StatIntervals conf). 1 \<le> x \<and> x \<le> 7200"
  shows "(Validat2e sensorValidate conf = None \<longleftrightarrow>
            1 \<le> IntervalSecs conf \<and> IntervalSecs conf \<le> 300) \<and>
         (IntervalSecs conf = 0 \<longrightarrow> Validat2e sensorValidate conf = Some (IntervalTooLow 0)) \<and>
         (IntervalSecs conf = 301 \<longrightarrow>
            Validat2e sensorValidate conf = Some (IntervalTooHigh 301))"
proof -
  have q: "quo (AioPollingIntervalMs (SensorConfig conf)) 1000 = 0"
    using assms(2) by (simp add: quo_def)
  have ok: "Validat2e sensorValidate conf = None"
    if "1 \<le> IntervalSecs conf" "IntervalSecs conf \<le> 300"
  proof (cases "StatIntervals conf = []")
    case True
    with that assms q show ?thesis by (simp add: Validat2e_no_stats)
  next
    case False
    then have "\<not> Min (set (StatIntervals conf)) < 1" "\<not> 7200 < Max (set (StatIntervals conf))"
      using assms(4) by (simp_all add: not_less)
    with False that assms q show ?thesis by (simp add: Validat2e_stats)
  qed
  have low: "Validat2e sensorValidate conf = Some (IntervalTooLow (IntervalSecs conf))"
    if "IntervalSecs conf < 1"
    using that assms(1) by (simp add: Validat2e_def)
  have high: "Validat2e sensorValidate conf = Some (IntervalTooHigh (IntervalSecs conf))"
    if "300 < IntervalSecs conf"
    using that assms(1) q by (simp add: Validat2e_def)
  show ?thesis
  proof (intro conjI impI iffI)
    assume "Validat2e sensorValidate conf = None"
    with low show "1 \<le> IntervalSecs conf" by (cases "IntervalSecs conf < 1") auto
  next
    assume "Validat2e sensorValidate conf = None"
    with high show "IntervalSecs conf \<le> 300" by (cases "300 < IntervalSecs conf") auto
  next
    assume "1 \<le> IntervalSecs conf \<and> IntervalSecs conf \<le> 300"
    then show "Validat2e sensorValidate conf = None" using ok by simp
  next
    assume "IntervalSecs conf = 0"
    then show "Validat2e sensorValidate conf = Some (IntervalTooLow 0)" using low by simp
  next
    assume "IntervalSecs conf = 301"
    then show "Validat2e sensorValidate conf = Some (IntervalTooHigh 301)" using high by simp
  qed
qed

theorem Validat2e_interval_bounds_witness:
  "Placement sampleConfig \<noteq> [] \<and>
   AioPollingIntervalMs (SensorConfig sampleConfig) = 0 \<and>
   list_all (\<lambda>x. 1 \<le> x \<and> x \<le> 7200) (StatIntervals sampleConfig) \<and>
   IntervalSecs sampleConfig = 30 \<and>
   Validat2e (\<lambda>s. None) sampleConfig = None \<and>
   Validat2e (\<lambda>s. None) (sampleConfig\<lparr>IntervalSecs := 1\<rparr>) = None \<and>
   Validat2e (\<lambda>s. None) (sampleConfig\<lparr>IntervalSecs := 300\<rparr>) = None \<and>
   Validat2e (\<lambda>s. None) (sampleConfig\<lparr>IntervalSecs := 0\<rparr>) = Some (IntervalTooLow 0) \<and>
   Validat2e (\<lambda>s. None) (sampleConfig\<lparr>IntervalSecs := 301\<rparr>) = Some (IntervalTooHigh 301)"
  using Validat2e_interval_bounds [of sampleConfig "\<lambda>s. None"]
    Validat2e_interval_bounds [of "sampleConfig\<lparr>IntervalSecs := 1\<rparr>" "\<lambda>s. None"]
    Validat2e_interval_bounds [of "sampleConfig\<lparr>IntervalSecs := 300\<rparr>" "\<lambda>s. None"]
    Validat2e_interval_bounds [of "sampleConfig\<lparr>IntervalSecs := 0\<rparr>" "\<lambda>s. None"]
    Validat2e_interval_bounds [of "sampleConfig\<lparr>IntervalSecs := 301\<rparr>" "\<lambda>s. None"]
  by (simp add: sampleConfig_fields)

text \<open>
  Claim C3. \<^verbatim>\<open>Validat2e\<close> returns the cross-field error exactly when the two earlier
  checks pass and \<open>IntervalSecs < AioPollingIntervalMs / 1000\<close>, and it returns some
  error whenever that inequality holds. The quotient truncates towards zero: its
  thousandfold is no larger in magnitude than \<^verbatim>\<open>AioPollingIntervalMs\<close> and less than 1000
  away from it. For \<^verbatim>\<open>AioPollingIntervalMs\<close> in \<open>[0, 1999]\<close> an \<^verbatim>\<open>IntervalSecs\<close> of 1 is
  not below the quotient, and the cross-field error is not returned.
\<close>

theorem Validat2e_cross_field:
  "((\<exists>q i. Validat2e sensorValidate conf = Some (IntervalBelowAio q i)) \<longleftrightarrow>
      Placement conf \<noteq> [] \<and> 1 \<le> IntervalSecs conf \<and>
      IntervalSecs conf < quo (AioPollingIntervalMs (SensorConfig conf)) 1000) \<and>
   (IntervalSecs conf < quo (AioPollingIntervalMs (SensorConfig conf)) 1000 \<longrightarrow>
      Validat2e sensorValidate conf \<noteq> None) \<and>
   \<bar>quo (AioPollingIntervalMs (SensorConfig conf)) 1000 * 1000\<bar>
      \<le> \<bar>AioPollingIntervalMs (SensorConfig conf)\<bar> \<and>
   \<bar>AioPollingIntervalMs (SensorConfig conf)
      - quo (AioPollingIntervalMs (SensorConfig conf)) 1000 * 1000\<bar> < 1000 \<and>
   (0 \<le> AioPollingIntervalMs (SensorConfig conf) \<and>
    AioPollingIntervalMs (SensorConfig conf) \<le> 1999 \<and> IntervalSecs conf = 1 \<longrightarrow>
      \<not> IntervalSecs conf < quo (AioPollingIntervalMs (SensorConfig conf)) 1000 \<and>
      (\<forall>q i. Validat2e sensorValidate conf \<noteq> Some (IntervalBelowAio q i)))"
proof -
  let ?a = "AioPollingIntervalMs (SensorConfig conf)"
  have rep: "(\<exists>q i. Validat2e sensorValidate conf = Some (IntervalBelowAio q i)) \<longleftrightarrow>
      Placement conf \<noteq> [] \<and> 1 \<le> IntervalSecs conf \<and> IntervalSecs conf < quo ?a 1000"
    by (auto simp: Validat2e_def Let_def split: if_splits option.splits)
  have fails: "Validat2e sensorValidate conf \<noteq> None" if "IntervalSecs conf < quo ?a 1000"
    using that by (simp add: Validat2e_def)
  have small: "\<not> (1::int) < quo ?a 1000" if "0 \<le> ?a" "?a \<le> 1999"
    using that by (simp add: quo_1000_nonneg)
  show ?thesis
    using rep fails small quo_1000_truncates [of ?a] by (intro conjI impI) auto
qed

theorem Validat2e_cross_field_witness:
  "Validat2e (\<lambda>s. None)
     (sampleConfig\<lparr>IntervalSecs := 1,
        SensorConfig := \<lparr>AioPollingIntervalMs = 1999, sensorRest = ()\<rparr>\<rparr>) = None \<and>
   quo 1999 1000 = 1 \<and>
   Validat2e (\<lambda>s. None)
     (sampleConfig\<lparr>IntervalSecs := 1,
        SensorConfig := \<lparr>AioPollingIntervalMs = 2000, sensorRest = ()\<rparr>\<rparr>)
     = Some (IntervalBelowAio 2 1) \<and>
   (\<exists>q i. Validat2e (\<lambda>s. None)
     (sampleConfig\<lparr>IntervalSecs := 1,
        SensorConfig := \<lparr>AioPollingIntervalMs = 2000, sensorRest = ()\<rparr>\<rparr>)
     = Some (IntervalBelowAio q i)) \<and>
   \<not> (\<exists>q i. Validat2e (\<lambda>s. None)
     (sampleConfig\<lparr>IntervalSecs := 1,
        SensorConfig := \<lparr>AioPollingIntervalMs = 1999, sensorRest = ()\<rparr>\<rparr>)
     = Some (IntervalBelowAio q i))"
  using Validat2e_cross_field [of "\<lambda>s. None"
      "sampleConfig\<lparr>IntervalSecs := 1,
         SensorConfig := \<lparr>AioPollingIntervalMs = 1999, sensorRest = ()\<rparr>\<rparr>"]
    Validat2e_cross_field [of "\<lambda>s. None"
      "sampleConfig\<lparr>IntervalSecs := 1,
         SensorConfig := \<lparr>AioPollingIntervalMs = 2000, sensorRest = ()\<rparr>\<rparr>"]
  by (simp add: sampleConfig_fields quo_def Validat2e_def GetStatIntervalMin_def
      GetStatIntervalMax_def maxStatsBucketSeconds_def)

text \<open>
  Claim C4 says that with a non-empty \<^verbatim>\<open>Placement\<close>, \<open>IntervalSecs > 300\<close> and
  \<open>IntervalSecs < AioPollingIntervalMs / 1000\<close> the upper-bound error is reported. The
  function tests the lower bound, then the cross-field rule, and the upper bound only
  after it: at \<open>IntervalSecs = 301\<close> and \<open>AioPollingIntervalMs = 400000\<close> it reports the
  cross-field error.
\<close>

theorem Validat2e_upper_bound_first_counterexample:
  "Placement (sampleConfig\<lparr>IntervalSecs := 301, SensorConfig := slowSensorConfig\<rparr>) \<noteq> [] \<and>
   300 < IntervalSecs (sampleConfig\<lparr>IntervalSecs := 301, SensorConfig := slowSensorConfig\<rparr>) \<and>
   IntervalSecs (sampleConfig\<lparr>IntervalSecs := 301, SensorConfig := slowSensorConfig\<rparr>)
     < quo (AioPollingIntervalMs (SensorConfig
         (sampleConfig\<lparr>IntervalSecs := 301, SensorConfig := slowSensorConfig\<rparr>))) 1000 \<and>
   Validat2e (\<lambda>s. None) (sampleConfig\<lparr>IntervalSecs := 301, SensorConfig := slowSensorConfig\<rparr>)
     = Some (IntervalBelowAio 400 301) \<and>
   Validat2e (\<lambda>s. None) (sampleConfig\<lparr>IntervalSecs := 301, SensorConfig := slowSensorConfig\<rparr>)
     \<noteq> Some (IntervalTooHigh 301)"
  by (simp add: sampleConfig_fields slowSensorConfig_def quo_def Validat2e_def)

text \<open>
  Claim C4, amended. \<^verbatim>\<open>Validat2e\<close> reports the first failing check in the order lower
  bound, cross-field rule, upper bound. With a non-empty \<^verbatim>\<open>Placement\<close>: an
  \<^verbatim>\<open>IntervalSecs\<close> below 1 gives the lower-bound error, whatever the cross-field rule
  says; \<open>IntervalSecs > 300\<close> with \<open>IntervalSecs < AioPollingIntervalMs / 1000\<close> gives the
  cross-field error; \<open>IntervalSecs > 300\<close> that is not below the quotient gives the
  upper-bound error.
\<close>

theorem Validat2e_check_order:
  "(Placement conf \<noteq> [] \<and> IntervalSecs conf < 1 \<longrightarrow>
      Validat2e sensorValidate conf = Some (IntervalTooLow (IntervalSecs conf))) \<and>
   (Placement conf \<noteq> [] \<and> 300 < IntervalSecs conf \<and>
    IntervalSecs conf < quo (AioPollingIntervalMs (SensorConfig conf)) 1000 \<longrightarrow>
      Validat2e sensorValidate conf =
        Some (IntervalBelowAio (quo (AioPollingIntervalMs (SensorConfig conf)) 1000)
                (IntervalSecs conf))) \<and>
   (Placement conf \<noteq> [] \<and> 300 < IntervalSecs conf \<and>
    \<not> IntervalSecs conf < quo (AioPollingIntervalMs (SensorConfig conf)) 1000 \<longrightarrow>
      Validat2e sensorValidate conf = Some (IntervalTooHigh (IntervalSecs conf)))"
  by (simp add: Validat2e_def)

theorem Validat2e_check_order_witness:
  "Validat2e (\<lambda>s. None) (sampleConfig\<lparr>IntervalSecs := 0, SensorConfig := slowSensorConfig\<rparr>)
     = Some (IntervalTooLow 0) \<and>
   Validat2e (\<lambda>s. None) (sampleConfig\<lparr>IntervalSecs := 301, SensorConfig := slowSensorConfig\<rparr>)
     = Some (IntervalBelowAio 400 301) \<and>
   Validat2e (\<lambda>s. None) (sampleConfig\<lparr>IntervalSecs := 301\<rparr>) = Some (IntervalTooHigh 301)"
  using Validat2e_check_order [of
      "sampleConfig\<lparr>IntervalSecs := 0, SensorConfig := slowSensorConfig\<rparr>" "\<lambda>s. None"]
    Validat2e_check_order [of
      "sampleConfig\<lparr>IntervalSecs := 301, SensorConfig := slowSensorConfig\<rparr>" "\<lambda>s. None"]
    Validat2e_check_order [of "sampleConfig\<lparr>IntervalSecs := 301\<rparr>" "\<lambda>s. None"]
  by (simp add: sampleConfig_fields slowSensorConfig_def quo_def)

text \<open>
  Claim C6. With a non-empty \<^verbatim>\<open>StatIntervals\<close>, \<^verbatim>\<open>Validat2e\<close> returns an error when the
  least element is below 1 or the greatest above 7200. Where the checks before pass,
  the error is the one about the minimum, else the one about the maximum, with the
  offending value; there is none when both bounds hold.
\<close>

theorem Validat2e_stats_bounds:
  assumes "StatIntervals conf \<noteq> []"
  shows "(Min (set (StatIntervals conf)) < 1 \<or> 7200 < Max (set (StatIntervals conf)) \<longrightarrow>
           Validat2e sensorValidate conf \<noteq> None) \<and>
         (Placement conf \<noteq> [] \<and> 1 \<le> IntervalSecs conf \<and>
          \<not> IntervalSecs conf < quo (AioPollingIntervalMs (SensorConfig conf)) 1000 \<and>
          IntervalSecs conf \<le> 300 \<and> sensorValidate (SensorConfig conf) = None \<longrightarrow>
            Validat2e sensorValidate conf =
              (if Min (set (StatIntervals conf)) < 1
               then Some (StatsMinTooLow (Min (set (StatIntervals conf))))
               else if 7200 < Max (set (StatIntervals conf))
               then Some (StatsMaxTooHigh 7200 (Max (set (StatIntervals conf))))
               else None))"
proof (intro conjI impI)
  assume bad: "Min (set (StatIntervals conf)) < 1 \<or> 7200 < Max (set (StatIntervals conf))"
  show "Validat2e sensorValidate conf \<noteq> None"
  proof (cases "Placement conf \<noteq> [] \<and> 1 \<le> IntervalSecs conf \<and>
      \<not> IntervalSecs conf < quo (AioPollingIntervalMs (SensorConfig conf)) 1000 \<and>
      IntervalSecs conf \<le> 300 \<and> sensorValidate (SensorConfig conf) = None")
    case True
    then show ?thesis using bad assms by (auto simp: Validat2e_stats)
  next
    case False
    then show ?thesis by (auto simp: Validat2e_def)
  qed
next
  assume "Placement conf \<noteq> [] \<and> 1 \<le> IntervalSecs conf \<and>
      \<not> IntervalSecs conf < quo (AioPollingIntervalMs (SensorConfig conf)) 1000 \<and>
      IntervalSecs conf \<le> 300 \<and> sensorValidate (SensorConfig conf) = None"
  then show "Validat2e sensorValidate conf =
      (if Min (set (StatIntervals conf)) < 1
       then Some (StatsMinTooLow (Min (set (StatIntervals conf))))
       else if 7200 < Max (set (StatIntervals conf))
       then Some (StatsMaxTooHigh 7200 (Max (set (StatIntervals conf))))
       else None)"
    using assms by (simp add: Validat2e_stats)
qed

theorem Validat2e_stats_bounds_witness:
  "Max (set (StatIntervals (sampleConfig\<lparr>StatIntervals := [15, 7300]\<rparr>))) = 7300 \<and>
   Validat2e (\<lambda>s. None) (sampleConfig\<lparr>StatIntervals := [15, 7300]\<rparr>)
     = Some (StatsMaxTooHigh 7200 7300) \<and>
   Min (set (StatIntervals (sampleConfig\<lparr>StatIntervals := [0, 15]\<rparr>))) = 0 \<and>
   Validat2e (\<lambda>s. None) (sampleConfig\<lparr>StatIntervals := [0, 15]\<rparr>)
     = Some (StatsMinTooLow 0) \<and>
   Validat2e (\<lambda>s. None) (sampleConfig\<lparr>StatIntervals := [1, 7200]\<rparr>) = None"
  using Validat2e_stats_bounds [of "sampleConfig\<lparr>StatIntervals := [15, 7300]\<rparr>" "\<lambda>s. None"]
    Validat2e_stats_bounds [of "sampleConfig\<lparr>StatIntervals := [0, 15]\<rparr>" "\<lambda>s. None"]
    Validat2e_stats_bounds [of "sampleConfig\<lparr>StatIntervals := [1, 7200]\<rparr>" "\<lambda>s. None"]
  by (simp add: sampleConfig_fields quo_def)

text \<open>
  Claim C10. \<^verbatim>\<open>DefaultConfig\<close> leaves \<^verbatim>\<open>Placement\<close> empty, whatever the sensor defaults
  are: \<^verbatim>\<open>Validat2e\<close> returns the empty-location error on it, and the declarative
  \<^verbatim>\<open>Validate\<close> returns errors of which the first is \<^verbatim>\<open>required\<close> on \<^verbatim>\<open>Placement\<close>.
\<close>

theorem DefaultConfig_not_valid:
  "Placement (DefaultConfig defaultSensorConfig) = [] \<and>
   Validat2e sensorValidate (DefaultConfig defaultSensorConfig) = Some EmptyLocation \<and>
   (\<exists>errs. Validate tcp_addr mqttRules sensorRules (DefaultConfig defaultSensorConfig) =
      Some (ValidationErrors (FieldError ''Placement'' ''required'' # errs)))"
  by (simp add: DefaultConfig_def Validat2e_def Validate_def)

subsection \<open>Resolution from the environment\<close>

lemma upperByte_fixed: "(of_char c :: nat) < 97 \<Longrightarrow> upperByte c = c"
  by (simp add: upperByte_def Let_def)

lemma ToUpper_BotName: "ToUpper BotName = ''GOBOT_LUX''"
  by code_simp

lemma ToUpper_names:
  "ToUpper ''LOCATION'' = ''LOCATION''"
  "ToUpper ''LOG_SENSOR'' = ''LOG_SENSOR''"
  "ToUpper ''INTERVAL_S'' = ''INTERVAL_S''"
  "ToUpper ''MQTT_HOST'' = ''MQTT_HOST''"
  "ToUpper ''MQTT_TOPIC'' = ''MQTT_TOPIC''"
  "ToUpper ''MQTT_STATS_TOPIC'' = ''MQTT_STATS_TOPIC''"
  "ToUpper ''METRICS_ADDR'' = ''METRICS_ADDR''"
  "ToUpper ''SSL_CLIENT_KEY_FILE'' = ''SSL_CLIENT_KEY_FILE''"
  "ToUpper ''SSL_CLIENT_CERT_FILE'' = ''SSL_CLIENT_CERT_FILE''"
  by (simp_all add: ToUpper_def upperByte_fixed)

lemma env_names:
  "computeEnvName ''LOCATION'' = ''GOBOT_LUX_LOCATION''"
  "computeEnvName ''LOG_SENSOR'' = ''GOBOT_LUX_LOG_SENSOR''"
  "computeEnvName ''INTERVAL_S'' = ''GOBOT_LUX_INTERVAL_S''"
  "computeEnvName ''MQTT_HOST'' = ''GOBOT_LUX_MQTT_HOST''"
  "computeEnvName ''MQTT_TOPIC'' = ''GOBOT_LUX_MQTT_TOPIC''"
  "computeEnvName ''MQTT_STATS_TOPIC'' = ''GOBOT_LUX_MQTT_STATS_TOPIC''"
  "computeEnvName ''METRICS_ADDR'' = ''GOBOT_LUX_METRICS_ADDR''"
  "computeEnvName ''SSL_CLIENT_KEY_FILE'' = ''GOBOT_LUX_SSL_CLIENT_KEY_FILE''"
  "computeEnvName ''SSL_CLIENT_CERT_FILE'' = ''GOBOT_LUX_SSL_CLIENT_CERT_FILE''"
  by (simp_all add: computeEnvName_def ToUpper_BotName ToUpper_names)

lemma digitVal_4: "digitVal CHR ''4'' = Some 4" by (simp add: digitVal_def)
lemma digitVal_5: "digitVal CHR ''5'' = Some 5" by (simp add: digitVal_def)
lemma digitVal_n: "digitVal CHR ''n'' = None" by (simp add: digitVal_def)

lemma Atoi_45: "Atoi ''45'' = Inr 45"
  by (simp add: Atoi_def digitVal_4 digitVal_5 intSize_def)

lemma Atoi_nan: "Atoi ''notanumber'' = Inl NumError"
  by (simp add: Atoi_def digitVal_n)

lemma ConfigFromEnv_eq:
  "ConfigFromEnv d sfe env =
     \<lparr>Placement = (case fromEnv env ''LOCATION'' of Inr v \<Rightarrow> v | Inl e \<Rightarrow> []),
      MetricConfig = (case fromEnv env ''METRICS_ADDR'' of Inr v \<Rightarrow> v | Inl e \<Rightarrow> defaultMetricConfig),
      IntervalSecs = (case fromEnvInt env ''INTERVAL_S'' of Inr v \<Rightarrow> v | Inl e \<Rightarrow> defaultIntervalSeconds),
      StatIntervals = defaultStatsBucketsSeconds,
      LogSensor = (case fromEnvBool env ''LOG_SENSOR'' of Inr v \<Rightarrow> v | Inl e \<Rightarrow> defaultLogSensor),
      MqttConfig =
        \<lparr>Host = (case fromEnv env ''MQTT_HOST'' of Inr v \<Rightarrow> v | Inl e \<Rightarrow> []),
         Topic = (case fromEnv env ''MQTT_TOPIC'' of Inr v \<Rightarrow> v | Inl e \<Rightarrow> []),
         StatsTopic = (case fromEnv env ''MQTT_STATS_TOPIC'' of Inr v \<Rightarrow> v | Inl e \<Rightarrow> []),
         ClientKeyFile = (case fromEnv env ''SSL_CLIENT_KEY_FILE'' of Inr v \<Rightarrow> v | Inl e \<Rightarrow> []),
         ClientCertFile = (case fromEnv env ''SSL_CLIENT_CERT_FILE'' of Inr v \<Rightarrow> v | Inl e \<Rightarrow> [])\<rparr>,
      SensorConfig = sfe env d\<rparr>"
proof -
  define c0 where "c0 = DefaultConfig d"
  define c1 where "c1 = (case fromEnv env ''LOCATION'' of
      Inr v \<Rightarrow> c0\<lparr>Placement := v\<rparr> | Inl e \<Rightarrow> c0)"
  define c2 where "c2 = (case fromEnvBool env ''LOG_SENSOR'' of
      Inr v \<Rightarrow> c1\<lparr>LogSensor := v\<rparr> | Inl e \<Rightarrow> c1)"
  define c3 where "c3 = (case fromEnvInt env ''INTERVAL_S'' of
      Inr v \<Rightarrow> c2\<lparr>IntervalSecs := v\<rparr> | Inl e \<Rightarrow> c2)"
  define c4 where "c4 = (case fromEnv env ''MQTT_HOST'' of
      Inr v \<Rightarrow> c3\<lparr>MqttConfig := (MqttConfig c3)\<lparr>Host := v\<rparr>\<rparr> | Inl e \<Rightarrow> c3)"
  define c5 where "c5 = (case fromEnv env ''MQTT_TOPIC'' of
      Inr v \<Rightarrow> c4\<lparr>MqttConfig := (MqttConfig c4)\<lparr>Topic := v\<rparr>\<rparr> | Inl e \<Rightarrow> c4)"
  define c6 where "c6 = (case fromEnv env ''MQTT_STATS_TOPIC'' of
      Inr v \<Rightarrow> c5\<lparr>MqttConfig := (MqttConfig c5)\<lparr>StatsTopic := v\<rparr>\<rparr> | Inl e \<Rightarrow> c5)"
  define c7 where "c7 = (case fromEnv env ''METRICS_ADDR'' of
      Inr v \<Rightarrow> c6\<lparr>MetricConfig := v\<rparr> | Inl e \<Rightarrow> c6)"
  define c8 where "c8 = (case fromEnv env ''SSL_CLIENT_KEY_FILE'' of
      Inr v \<Rightarrow> c7\<lparr>MqttConfig := (MqttConfig c7)\<lparr>ClientKeyFile := v\<rparr>\<rparr> | Inl e \<Rightarrow> c7)"
  define c9 where "c9 = (case fromEnv env ''SSL_CLIENT_CERT_FILE'' of
      Inr v \<Rightarrow> c8\<lparr>MqttConfig := (MqttConfig c8)\<lparr>ClientCertFile := v\<rparr>\<rparr> | Inl e \<Rightarrow> c8)"
  have chain: "ConfigFromEnv d sfe env = c9\<lparr>SensorConfig := sfe env (SensorConfig c9)\<rparr>"
    apply (simp only: ConfigFromEnv_def c0_def [symmetric] Let_def [of c0]
        c1_def [symmetric] Let_def [of c1] c2_def [symmetric] Let_def [of c2]
        c3_def [symmetric] Let_def [of c3] c4_def [symmetric] Let_def [of c4]
        c5_def [symmetric] Let_def [of c5] c6_def [symmetric] Let_def [of c6]
        c7_def [symmetric] Let_def [of c7] c8_def [symmetric] Let_def [of c8]
        c9_def [symmetric] Let_def [of c9])
    apply (simp only: Let_def)
    done
  have s0: "c0 = \<lparr>Placement = [], MetricConfig = defaultMetricConfig,
      IntervalSecs = defaultIntervalSeconds, StatIntervals = defaultStatsBucketsSeconds,
      LogSensor = defaultLogSensor,
      MqttConfig = \<lparr>Host = [], Topic = [], StatsTopic = [], ClientKeyFile = [],
        ClientCertFile = []\<rparr>,
      SensorConfig = d\<rparr>"
    by (simp add: c0_def DefaultConfig_def zeroMqttConfig_def)
  have s1: "c1 = Placement_update
      (\<lambda>p. case fromEnv env ''LOCATION'' of Inr v \<Rightarrow> v | Inl e \<Rightarrow> p) c0"
    by (simp add: c1_def split: sum.splits)
  have s2: "c2 = LogSensor_update
      (\<lambda>p. case fromEnvBool env ''LOG_SENSOR'' of Inr v \<Rightarrow> v | Inl e \<Rightarrow> p) c1"
    by (simp add: c2_def split: sum.splits)
  have s3: "c3 = IntervalSecs_update
      (\<lambda>p. case fromEnvInt env ''INTERVAL_S'' of Inr v \<Rightarrow> v | Inl e \<Rightarrow> p) c2"
    by (simp add: c3_def split: sum.splits)
  have s4: "c4 = MqttConfig_update (Host_update
      (\<lambda>p. case fromEnv env ''MQTT_HOST'' of Inr v \<Rightarrow> v | Inl e \<Rightarrow> p)) c3"
    by (simp add: c4_def split: sum.splits)
  have s5: "c5 = MqttConfig_update (Topic_update
      (\<lambda>p. case fromEnv env ''MQTT_TOPIC'' of Inr v \<Rightarrow> v | Inl e \<Rightarrow> p)) c4"
    by (simp add: c5_def split: sum.splits)
  have s6: "c6 = MqttConfig_update (StatsTopic_update
      (\<lambda>p. case fromEnv env ''MQTT_STATS_TOPIC'' of Inr v \<Rightarrow> v | Inl e \<Rightarrow> p)) c5"
    by (simp add: c6_def split: sum.splits)
  have s7: "c7 = MetricConfig_update
      (\<lambda>p. case fromEnv env ''METRICS_ADDR'' of Inr v \<Rightarrow> v | Inl e \<Rightarrow> p) c6"
    by (simp add: c7_def split: sum.splits)
  have s8: "c8 = MqttConfig_update (ClientKeyFile_update
      (\<lambda>p. case fromEnv env ''SSL_CLIENT_KEY_FILE'' of Inr v \<Rightarrow> v | Inl e \<Rightarrow> p)) c7"
    by (simp add: c8_def split: sum.splits)
  have s9: "c9 = MqttConfig_update (ClientCertFile_update
      (\<lambda>p. case fromEnv env ''SSL_CLIENT_CERT_FILE'' of Inr v \<Rightarrow> v | Inl e \<Rightarrow> p)) c8"
    by (simp add: c9_def split: sum.splits)
  have "c9\<lparr>SensorConfig := sfe env (SensorConfig c9)\<rparr> = SensorConfig_update (\<lambda>s. sfe env s) c9"
    by simp
  then show ?thesis
    unfolding chain s9 s8 s7 s6 s5 s4 s3 s2 s1 s0 by simp
qed


lemma fromEnv_unset:
  assumes "Getenv env (computeEnvName name) = []"
  shows "fromEnv env name = Inl NotDefined" "fromEnvInt env name = Inl NotDefined"
    "fromEnvBool env name = Inl NotDefined"
  using assms by (simp_all add: fromEnv_def fromEnvInt_def fromEnvBool_def)

lemma fromEnv_set:
  assumes "Getenv env (computeEnvName name) \<noteq> []"
  shows "fromEnv env name = Inr (Getenv env (computeEnvName name))"
    "fromEnvInt env name = Atoi (Getenv env (computeEnvName name))"
    "fromEnvBool env name = ParseBool (Getenv env (computeEnvName name))"
  using assms
  by (simp_all add: fromEnv_def fromEnvInt_def fromEnvBool_def split: sum.splits)

lemma Getenv_None: "env name = None \<Longrightarrow> Getenv env name = []"
  by (simp add: Getenv_def)

lemma Getenv_Some: "env name = Some val \<Longrightarrow> Getenv env name = val"
  by (simp add: Getenv_def)

lemma fromEnv_string_field:
  "(case fromEnv env name of Inr v \<Rightarrow> v | Inl e \<Rightarrow> dflt) =
     (if Getenv env (computeEnvName name) = [] then dflt else Getenv env (computeEnvName name))"
  by (simp add: fromEnv_def)

lemma fromEnv_drop_empty:
  "fromEnv (\<lambda>k. if env k = Some [] then None else env k) name = fromEnv env name"
  "fromEnvInt (\<lambda>k. if env k = Some [] then None else env k) name = fromEnvInt env name"
  "fromEnvBool (\<lambda>k. if env k = Some [] then None else env k) name = fromEnvBool env name"
proof -
  have "Getenv (\<lambda>k. if env k = Some [] then None else env k) n = Getenv env n" for n
    by (simp add: Getenv_def)
  then show "fromEnv (\<lambda>k. if env k = Some [] then None else env k) name = fromEnv env name"
    by (simp add: fromEnv_def)
  then show
    "fromEnvInt (\<lambda>k. if env k = Some [] then None else env k) name = fromEnvInt env name"
    "fromEnvBool (\<lambda>k. if env k = Some [] then None else env k) name = fromEnvBool env name"
    by (simp_all add: fromEnvInt_def fromEnvBool_def)
qed

lemma ConfigFromEnv_interval_only:
  assumes "env ''GOBOT_LUX_INTERVAL_S'' = Some ''45''"
    and "env ''GOBOT_LUX_LOCATION'' = None" and "env ''GOBOT_LUX_LOG_SENSOR'' = None"
    and "env ''GOBOT_LUX_MQTT_HOST'' = None" and "env ''GOBOT_LUX_MQTT_TOPIC'' = None"
    and "env ''GOBOT_LUX_MQTT_STATS_TOPIC'' = None" and "env ''GOBOT_LUX_METRICS_ADDR'' = None"
    and "env ''GOBOT_LUX_SSL_CLIENT_KEY_FILE'' = None"
    and "env ''GOBOT_LUX_SSL_CLIENT_CERT_FILE'' = None"
    and "sfe env d = d"
  shows "ConfigFromEnv d sfe env = (DefaultConfig d)\<lparr>IntervalSecs := 45\<rparr>"
proof -
  have i: "fromEnvInt env ''INTERVAL_S'' = Inr 45"
    using assms(1) by (simp add: fromEnv_set env_names Getenv_Some Atoi_45)
  have u: "fromEnv env ''LOCATION'' = Inl NotDefined"
    "fromEnvBool env ''LOG_SENSOR'' = Inl NotDefined"
    "fromEnv env ''MQTT_HOST'' = Inl NotDefined"
    "fromEnv env ''MQTT_TOPIC'' = Inl NotDefined"
    "fromEnv env ''MQTT_STATS_TOPIC'' = Inl NotDefined"
    "fromEnv env ''METRICS_ADDR'' = Inl NotDefined"
    "fromEnv env ''SSL_CLIENT_KEY_FILE'' = Inl NotDefined"
    "fromEnv env ''SSL_CLIENT_CERT_FILE'' = Inl NotDefined"
    using assms(2-9) by (simp_all add: fromEnv_unset env_names Getenv_None)
  show ?thesis
    by (simp add: ConfigFromEnv_eq i u assms(10) DefaultConfig_def zeroMqttConfig_def)
qed

lemma ConfigFromEnv_interval_unparsable:
  assumes "env ''GOBOT_LUX_INTERVAL_S'' = Some ''notanumber''"
  shows "fromEnvInt env ''INTERVAL_S'' = Inl NumError"
    and "IntervalSecs (ConfigFromEnv d sfe env) = IntervalSecs (DefaultConfig d)"
proof -
  show i: "fromEnvInt env ''INTERVAL_S'' = Inl NumError"
    using assms by (simp add: fromEnv_set env_names Getenv_Some Atoi_nan)
  show "IntervalSecs (ConfigFromEnv d sfe env) = IntervalSecs (DefaultConfig d)"
    by (simp add: ConfigFromEnv_eq i DefaultConfig_def)
qed

text \<open>
  Claim C1. In an environment where, of the nine variables \<^verbatim>\<open>ConfigFromEnv\<close> reads,
  only \<^verbatim>\<open>GOBOT_LUX_INTERVAL_S\<close> is set, to \<^verbatim>\<open>45\<close>, and where the sensor
  sub-configuration's own resolution leaves its defaults as they are (none of its
  variables is set), the result is the default configuration with \<^verbatim>\<open>IntervalSecs\<close> 45.
  With \<^verbatim>\<open>GOBOT_LUX_INTERVAL_S=notanumber\<close> the lookup fails and \<^verbatim>\<open>IntervalSecs\<close> keeps its
  default. A lookup fails whenever the variable is absent or empty, or its value does
  not parse. Every field of the result is its own variable's value where that lookup
  succeeds and the default otherwise, whatever the other variables are; the function
  returns a configuration and no error.
\<close>

theorem ConfigFromEnv_overrides:
  "(env ''GOBOT_LUX_INTERVAL_S'' = Some ''45'' \<and>
    env ''GOBOT_LUX_LOCATION'' = None \<and> env ''GOBOT_LUX_LOG_SENSOR'' = None \<and>
    env ''GOBOT_LUX_MQTT_HOST'' = None \<and> env ''GOBOT_LUX_MQTT_TOPIC'' = None \<and>
    env ''GOBOT_LUX_MQTT_STATS_TOPIC'' = None \<and> env ''GOBOT_LUX_METRICS_ADDR'' = None \<and>
    env ''GOBOT_LUX_SSL_CLIENT_KEY_FILE'' = None \<and>
    env ''GOBOT_LUX_SSL_CLIENT_CERT_FILE'' = None \<and>
    sensorConfigFromEnv env defaultSensorConfig = defaultSensorConfig \<longrightarrow>
      ConfigFromEnv defaultSensorConfig sensorConfigFromEnv env =
        (DefaultConfig defaultSensorConfig)\<lparr>IntervalSecs := 45\<rparr>) \<and>
   (env ''GOBOT_LUX_INTERVAL_S'' = Some ''notanumber'' \<longrightarrow>
      fromEnvInt env ''INTERVAL_S'' = Inl NumError \<and>
      IntervalSecs (ConfigFromEnv defaultSensorConfig sensorConfigFromEnv env) =
        IntervalSecs (DefaultConfig defaultSensorConfig)) \<and>
   (\<forall>name. Getenv env (computeEnvName name) = [] \<longrightarrow>
      isl (fromEnv env name) \<and> isl (fromEnvInt env name) \<and> isl (fromEnvBool env name)) \<and>
   (\<forall>name. isl (Atoi (Getenv env (computeEnvName name))) \<longrightarrow> isl (fromEnvInt env name)) \<and>
   (\<forall>name. isl (ParseBool (Getenv env (computeEnvName name))) \<longrightarrow>
      isl (fromEnvBool env name)) \<and>
   ConfigFromEnv defaultSensorConfig sensorConfigFromEnv env =
     \<lparr>Placement = (case fromEnv env ''LOCATION'' of
          Inr v \<Rightarrow> v | Inl e \<Rightarrow> Placement (DefaultConfig defaultSensorConfig)),
      MetricConfig = (case fromEnv env ''METRICS_ADDR'' of
          Inr v \<Rightarrow> v | Inl e \<Rightarrow> MetricConfig (DefaultConfig defaultSensorConfig)),
      IntervalSecs = (case fromEnvInt env ''INTERVAL_S'' of
          Inr v \<Rightarrow> v | Inl e \<Rightarrow> IntervalSecs (DefaultConfig defaultSensorConfig)),
      StatIntervals = StatIntervals (DefaultConfig defaultSensorConfig),
      LogSensor = (case fromEnvBool env ''LOG_SENSOR'' of
          Inr v \<Rightarrow> v | Inl e \<Rightarrow> LogSensor (DefaultConfig defaultSensorConfig)),
      MqttConfig =
        \<lparr>Host = (case fromEnv env ''MQTT_HOST'' of
             Inr v \<Rightarrow> v | Inl e \<Rightarrow> Host (MqttConfig (DefaultConfig defaultSensorConfig))),
         Topic = (case fromEnv env ''MQTT_TOPIC'' of
             Inr v \<Rightarrow> v | Inl e \<Rightarrow> Topic (MqttConfig (DefaultConfig defaultSensorConfig))),
         StatsTopic = (case fromEnv env ''MQTT_STATS_TOPIC'' of
             Inr v \<Rightarrow> v
           | Inl e \<Rightarrow> StatsTopic (MqttConfig (DefaultConfig defaultSensorConfig))),
         ClientKeyFile = (case fromEnv env ''SSL_CLIENT_KEY_FILE'' of
             Inr v \<Rightarrow> v
           | Inl e \<Rightarrow> ClientKeyFile (MqttConfig (DefaultConfig defaultSensorConfig))),
         ClientCertFile = (case fromEnv env ''SSL_CLIENT_CERT_FILE'' of
             Inr v \<Rightarrow> v
           | Inl e \<Rightarrow> ClientCertFile (MqttConfig (DefaultConfig defaultSensorConfig)))\<rparr>,
      SensorConfig = sensorConfigFromEnv env (SensorConfig (DefaultConfig defaultSensorConfig))\<rparr>"
proof (intro conjI impI allI)
  fix name
  assume "isl (Atoi (Getenv env (computeEnvName name)))"
  then show "isl (fromEnvInt env name)"
    by (cases "Getenv env (computeEnvName name) = []") (simp_all add: fromEnv_unset fromEnv_set)
next
  fix name
  assume "isl (ParseBool (Getenv env (computeEnvName name)))"
  then show "isl (fromEnvBool env name)"
    by (cases "Getenv env (computeEnvName name) = []") (simp_all add: fromEnv_unset fromEnv_set)
next
  show "ConfigFromEnv defaultSensorConfig sensorConfigFromEnv env =
     \<lparr>Placement = (case fromEnv env ''LOCATION'' of
          Inr v \<Rightarrow> v | Inl e \<Rightarrow> Placement (DefaultConfig defaultSensorConfig)),
      MetricConfig = (case fromEnv env ''METRICS_ADDR'' of
          Inr v \<Rightarrow> v | Inl e \<Rightarrow> MetricConfig (DefaultConfig defaultSensorConfig)),
      IntervalSecs = (case fromEnvInt env ''INTERVAL_S'' of
          Inr v \<Rightarrow> v | Inl e \<Rightarrow> IntervalSecs (DefaultConfig defaultSensorConfig)),
      StatIntervals = StatIntervals (DefaultConfig defaultSensorConfig),
      LogSensor = (case fromEnvBool env ''LOG_SENSOR'' of
          Inr v \<Rightarrow> v | Inl e \<Rightarrow> LogSensor (DefaultConfig defaultSensorConfig)),
      MqttConfig =
        \<lparr>Host = (case fromEnv env ''MQTT_HOST'' of
             Inr v \<Rightarrow> v | Inl e \<Rightarrow> Host (MqttConfig (DefaultConfig defaultSensorConfig))),
         Topic = (case fromEnv env ''MQTT_TOPIC'' of
             Inr v \<Rightarrow> v | Inl e \<Rightarrow> Topic (MqttConfig (DefaultConfig defaultSensorConfig))),
         StatsTopic = (case fromEnv env ''MQTT_STATS_TOPIC'' of
             Inr v \<Rightarrow> v
           | Inl e \<Rightarrow> StatsTopic (MqttConfig (DefaultConfig defaultSensorConfig))),
         ClientKeyFile = (case fromEnv env ''SSL_CLIENT_KEY_FILE'' of
             Inr v \<Rightarrow> v
           | Inl e \<Rightarrow> ClientKeyFile (MqttConfig (DefaultConfig defaultSensorConfig))),
         ClientCertFile = (case fromEnv env ''SSL_CLIENT_CERT_FILE'' of
             Inr v \<Rightarrow> v
           | Inl e \<Rightarrow> ClientCertFile (MqttConfig (DefaultConfig defaultSensorConfig)))\<rparr>,
      SensorConfig = sensorConfigFromEnv env (SensorConfig (DefaultConfig defaultSensorConfig))\<rparr>"
    by (simp add: ConfigFromEnv_eq DefaultConfig_def zeroMqttConfig_def cong: sum.case_cong)
qed (simp_all add: ConfigFromEnv_interval_only ConfigFromEnv_interval_unparsable fromEnv_unset)


theorem ConfigFromEnv_overrides_witness:
  "ConfigFromEnv sampleSensorConfig (\<lambda>env s. s) intervalEnv =
     (DefaultConfig sampleSensorConfig)\<lparr>IntervalSecs := 45\<rparr> \<and>
   fromEnvInt malformedEnv ''INTERVAL_S'' = Inl NumError \<and>
   IntervalSecs (ConfigFromEnv sampleSensorConfig (\<lambda>env s. s) malformedEnv) = 30 \<and>
   LogSensor (ConfigFromEnv sampleSensorConfig (\<lambda>env s. s) malformedEnv) = True \<and>
   Getenv malformedEnv (computeEnvName ''LOCATION'') = [] \<and>
   isl (fromEnv malformedEnv ''LOCATION'') \<and>
   Placement (ConfigFromEnv sampleSensorConfig (\<lambda>env s. s) malformedEnv) = []"
proof -
  have b: "fromEnvBool malformedEnv ''LOG_SENSOR'' = Inr True"
    by (simp add: fromEnv_def fromEnvBool_def env_names Getenv_def malformedEnv_def
        ParseBool_def)
  have l: "Getenv malformedEnv (computeEnvName ''LOCATION'') = []"
    by (simp add: env_names Getenv_def malformedEnv_def)
  note T1 = ConfigFromEnv_overrides [of intervalEnv "\<lambda>env s. s" sampleSensorConfig]
  note T2 = ConfigFromEnv_overrides [of malformedEnv "\<lambda>env s. s" sampleSensorConfig]
  have a: "ConfigFromEnv sampleSensorConfig (\<lambda>env s. s) intervalEnv =
      (DefaultConfig sampleSensorConfig)\<lparr>IntervalSecs := 45\<rparr>"
    using T1 [THEN conjunct1] by (simp add: intervalEnv_def)
  have i: "fromEnvInt malformedEnv ''INTERVAL_S'' = Inl NumError \<and>
      IntervalSecs (ConfigFromEnv sampleSensorConfig (\<lambda>env s. s) malformedEnv) =
        IntervalSecs (DefaultConfig sampleSensorConfig)"
    using T2 [THEN conjunct2, THEN conjunct1] by (simp add: malformedEnv_def)
  have e: "isl (fromEnv malformedEnv ''LOCATION'')"
    using T2 [THEN conjunct2, THEN conjunct2, THEN conjunct1] l by simp
  note r = T2 [THEN conjunct2, THEN conjunct2, THEN conjunct2, THEN conjunct2, THEN conjunct2]
  have g: "LogSensor (ConfigFromEnv sampleSensorConfig (\<lambda>env s. s) malformedEnv) = True"
    by (simp add: r b)
  have p: "Placement (ConfigFromEnv sampleSensorConfig (\<lambda>env s. s) malformedEnv) = []"
    by (simp add: r fromEnv_unset [OF l] DefaultConfig_def)
  show ?thesis
    using a i e g p l by (simp add: DefaultConfig_def defaultIntervalSeconds_def)
qed

lemma ConfigFromEnv_drop_empty:
  "ConfigFromEnv d sfe (\<lambda>k. if env k = Some [] then None else env k)
     \<lparr>SensorConfig := s\<rparr> = ConfigFromEnv d sfe env\<lparr>SensorConfig := s\<rparr>"
  by (simp add: ConfigFromEnv_eq fromEnv_drop_empty)

lemma fromEnv_empty_value:
  assumes "env (computeEnvName name) = Some []"
  shows "fromEnv env name = Inl NotDefined" "fromEnvInt env name = Inl NotDefined"
    "fromEnvBool env name = Inl NotDefined"
    "fromEnv (env(computeEnvName name := None)) name = fromEnv env name"
    "fromEnvInt (env(computeEnvName name := None)) name = fromEnvInt env name"
    "fromEnvBool (env(computeEnvName name := None)) name = fromEnvBool env name"
proof -
  have g: "Getenv env (computeEnvName name) = []"
    "Getenv (env(computeEnvName name := None)) (computeEnvName name) = []"
    using assms by (simp_all add: Getenv_def)
  show "fromEnv env name = Inl NotDefined" "fromEnvInt env name = Inl NotDefined"
    "fromEnvBool env name = Inl NotDefined"
    "fromEnv (env(computeEnvName name := None)) name = fromEnv env name"
    "fromEnvInt (env(computeEnvName name := None)) name = fromEnvInt env name"
    "fromEnvBool (env(computeEnvName name := None)) name = fromEnvBool env name"
    by (simp_all add: fromEnv_unset [OF g(1)] fromEnv_unset [OF g(2)])
qed

lemma fromEnv_never_empty: "fromEnv env name \<noteq> Inr []"
  by (simp add: fromEnv_def Let_def)

lemma ConfigFromEnv_string_fields:
  "Placement (ConfigFromEnv d sfe env) =
     (if Getenv env ''GOBOT_LUX_LOCATION'' = [] then Placement (DefaultConfig d)
      else Getenv env ''GOBOT_LUX_LOCATION'')"
  "Host (MqttConfig (ConfigFromEnv d sfe env)) =
     (if Getenv env ''GOBOT_LUX_MQTT_HOST'' = [] then Host (MqttConfig (DefaultConfig d))
      else Getenv env ''GOBOT_LUX_MQTT_HOST'')"
  "Topic (MqttConfig (ConfigFromEnv d sfe env)) =
     (if Getenv env ''GOBOT_LUX_MQTT_TOPIC'' = [] then Topic (MqttConfig (DefaultConfig d))
      else Getenv env ''GOBOT_LUX_MQTT_TOPIC'')"
  "StatsTopic (MqttConfig (ConfigFromEnv d sfe env)) =
     (if Getenv env ''GOBOT_LUX_MQTT_STATS_TOPIC'' = []
      then StatsTopic (MqttConfig (DefaultConfig d))
      else Getenv env ''GOBOT_LUX_MQTT_STATS_TOPIC'')"
  "MetricConfig (ConfigFromEnv d sfe env) =
     (if Getenv env ''GOBOT_LUX_METRICS_ADDR'' = [] then MetricConfig (DefaultConfig d)
      else Getenv env ''GOBOT_LUX_METRICS_ADDR'')"
  "ClientKeyFile (MqttConfig (ConfigFromEnv d sfe env)) =
     (if Getenv env ''GOBOT_LUX_SSL_CLIENT_KEY_FILE'' = []
      then ClientKeyFile (MqttConfig (DefaultConfig d))
      else Getenv env ''GOBOT_LUX_SSL_CLIENT_KEY_FILE'')"
  "ClientCertFile (MqttConfig (ConfigFromEnv d sfe env)) =
     (if Getenv env ''GOBOT_LUX_SSL_CLIENT_CERT_FILE'' = []
      then ClientCertFile (MqttConfig (DefaultConfig d))
      else Getenv env ''GOBOT_LUX_SSL_CLIENT_CERT_FILE'')"
  by (simp_all add: ConfigFromEnv_eq fromEnv_string_field env_names DefaultConfig_def
      zeroMqttConfig_def)

lemma ConfigFromEnv_MetricConfig_nonempty: "MetricConfig (ConfigFromEnv d sfe env) \<noteq> []"
  by (simp add: ConfigFromEnv_eq fromEnv_string_field defaultMetricConfig_def)

text \<open>
  Claim C9. A variable set to the empty string is treated as an absent one: each of
  the three lookups returns the not-defined error, as it does once the variable is
  removed, and no lookup returns the empty string. \<^verbatim>\<open>ConfigFromEnv\<close> gives the same
  values to its own fields (all but the sensor sub-configuration, which another file
  resolves) whether the variables with an empty value are there or not. Each string
  field is the default where its variable is absent or empty and the variable's
  non-empty value otherwise, so that none is set to the empty string; \<^verbatim>\<open>MetricConfig\<close>,
  whose default is not empty, is never empty.
\<close>

theorem fromEnv_empty_as_absent:
  "(env (computeEnvName name) = Some [] \<longrightarrow>
      fromEnv env name = Inl NotDefined \<and> fromEnvInt env name = Inl NotDefined \<and>
      fromEnvBool env name = Inl NotDefined \<and>
      fromEnv (env(computeEnvName name := None)) name = fromEnv env name \<and>
      fromEnvInt (env(computeEnvName name := None)) name = fromEnvInt env name \<and>
      fromEnvBool (env(computeEnvName name := None)) name = fromEnvBool env name) \<and>
   fromEnv env name \<noteq> Inr [] \<and>
   ConfigFromEnv defaultSensorConfig sensorConfigFromEnv
       (\<lambda>k. if env k = Some [] then None else env k) \<lparr>SensorConfig := s\<rparr> =
     ConfigFromEnv defaultSensorConfig sensorConfigFromEnv env \<lparr>SensorConfig := s\<rparr> \<and>
   Placement (ConfigFromEnv defaultSensorConfig sensorConfigFromEnv env) =
     (if Getenv env ''GOBOT_LUX_LOCATION'' = []
      then Placement (DefaultConfig defaultSensorConfig)
      else Getenv env ''GOBOT_LUX_LOCATION'') \<and>
   Host (MqttConfig (ConfigFromEnv defaultSensorConfig sensorConfigFromEnv env)) =
     (if Getenv env ''GOBOT_LUX_MQTT_HOST'' = []
      then Host (MqttConfig (DefaultConfig defaultSensorConfig))
      else Getenv env ''GOBOT_LUX_MQTT_HOST'') \<and>
   Topic (MqttConfig (ConfigFromEnv defaultSensorConfig sensorConfigFromEnv env)) =
     (if Getenv env ''GOBOT_LUX_MQTT_TOPIC'' = []
      then Topic (MqttConfig (DefaultConfig defaultSensorConfig))
      else Getenv env ''GOBOT_LUX_MQTT_TOPIC'') \<and>
   StatsTopic (MqttConfig (ConfigFromEnv defaultSensorConfig sensorConfigFromEnv env)) =
     (if Getenv env ''GOBOT_LUX_MQTT_STATS_TOPIC'' = []
      then StatsTopic (MqttConfig (DefaultConfig defaultSensorConfig))
      else Getenv env ''GOBOT_LUX_MQTT_STATS_TOPIC'') \<and>
   MetricConfig (ConfigFromEnv defaultSensorConfig sensorConfigFromEnv env) =
     (if Getenv env ''GOBOT_LUX_METRICS_ADDR'' = []
      then MetricConfig (DefaultConfig defaultSensorConfig)
      else Getenv env ''GOBOT_LUX_METRICS_ADDR'') \<and>
   ClientKeyFile (MqttConfig (ConfigFromEnv defaultSensorConfig sensorConfigFromEnv env)) =
     (if Getenv env ''GOBOT_LUX_SSL_CLIENT_KEY_FILE'' = []
      then ClientKeyFile (MqttConfig (DefaultConfig defaultSensorConfig))
      else Getenv env ''GOBOT_LUX_SSL_CLIENT_KEY_FILE'') \<and>
   ClientCertFile (MqttConfig (ConfigFromEnv defaultSensorConfig sensorConfigFromEnv env)) =
     (if Getenv env ''GOBOT_LUX_SSL_CLIENT_CERT_FILE'' = []
      then ClientCertFile (MqttConfig (DefaultConfig defaultSensorConfig))
      else Getenv env ''GOBOT_LUX_SSL_CLIENT_CERT_FILE'') \<and>
   MetricConfig (ConfigFromEnv defaultSensorConfig sensorConfigFromEnv env) \<noteq> []"
  by (intro conjI impI ConfigFromEnv_MetricConfig_nonempty fromEnv_never_empty
      ConfigFromEnv_drop_empty ConfigFromEnv_string_fields)
    (simp_all only: fromEnv_empty_value)

theorem fromEnv_empty_as_absent_witness:
  "emptyValueEnv (computeEnvName ''LOCATION'') = Some [] \<and>
   fromEnv emptyValueEnv ''LOCATION'' = Inl NotDefined \<and>
   fromEnv (emptyValueEnv(computeEnvName ''LOCATION'' := None)) ''LOCATION'' = Inl NotDefined \<and>
   emptyValueEnv (computeEnvName ''METRICS_ADDR'') = Some [] \<and>
   fromEnv emptyValueEnv ''METRICS_ADDR'' = Inl NotDefined \<and>
   MetricConfig (ConfigFromEnv sampleSensorConfig (\<lambda>env s. s) emptyValueEnv) = '':9194'' \<and>
   Placement (ConfigFromEnv sampleSensorConfig (\<lambda>env s. s) emptyValueEnv) = []"
proof -
  have l: "emptyValueEnv (computeEnvName ''LOCATION'') = Some []"
    "emptyValueEnv (computeEnvName ''METRICS_ADDR'') = Some []"
    by (simp_all add: env_names emptyValueEnv_def)
  have g: "Getenv emptyValueEnv ''GOBOT_LUX_METRICS_ADDR'' = []"
    "Getenv emptyValueEnv ''GOBOT_LUX_LOCATION'' = []"
    by (simp_all add: Getenv_def emptyValueEnv_def)
  note T1 = fromEnv_empty_as_absent [where env = emptyValueEnv and name = "''LOCATION''"
      and defaultSensorConfig = sampleSensorConfig and sensorConfigFromEnv = "\<lambda>env s. s"
      and s = sampleSensorConfig]
  note T2 = fromEnv_empty_as_absent [where env = emptyValueEnv and name = "''METRICS_ADDR''"
      and defaultSensorConfig = sampleSensorConfig and sensorConfigFromEnv = "\<lambda>env s. s"
      and s = sampleSensorConfig]
  have a: "fromEnv emptyValueEnv ''LOCATION'' = Inl NotDefined"
    "fromEnv (emptyValueEnv(computeEnvName ''LOCATION'' := None)) ''LOCATION'' = Inl NotDefined"
    using T1 [THEN conjunct1] l(1) by simp_all
  have b: "fromEnv emptyValueEnv ''METRICS_ADDR'' = Inl NotDefined"
    using T2 [THEN conjunct1] l(2) by simp
  note r = T1 [THEN conjunct2, THEN conjunct2, THEN conjunct2]
  have p: "Placement (ConfigFromEnv sampleSensorConfig (\<lambda>env s. s) emptyValueEnv) = []"
    using r [THEN conjunct1] g(2) by (simp add: DefaultConfig_def)
  note r4 = r [THEN conjunct2, THEN conjunct2, THEN conjunct2, THEN conjunct2]
  have m: "MetricConfig (ConfigFromEnv sampleSensorConfig (\<lambda>env s. s) emptyValueEnv) = '':9194''"
    using r4 [THEN conjunct1] g(1) by (simp add: DefaultConfig_def defaultMetricConfig_def)
  show ?thesis
    using l a b p m by simp
qed

subsection \<open>The declarative validation\<close>

lemma diveStatIntervals_Nil: "diveStatIntervals i [] = []"
  by (simp add: diveStatIntervals_def)

lemma diveStatIntervals_Cons:
  "diveStatIntervals i (val # vals) =
     (if val < 10 then [ElementError ''StatIntervals'' i ''min'']
      else if val > 3600 then [ElementError ''StatIntervals'' i ''max'']
      else []) @ diveStatIntervals (Suc i) vals"
  by (simp add: diveStatIntervals_def)

lemma diveStatIntervals_empty_iff:
  "diveStatIntervals i vals = [] \<longleftrightarrow> (\<forall>val\<in>set vals. 10 \<le> val \<and> val \<le> 3600)"
proof (induction vals arbitrary: i)
  case Nil
  show ?case by (simp add: diveStatIntervals_Nil)
next
  case (Cons val vals)
  then show ?case by (auto simp: diveStatIntervals_Cons)
qed

lemma Validate_None_iff:
  "Validate tcp_addr mqttRules sensorRules conf = None \<longleftrightarrow>
     Placement conf \<noteq> [] \<and>
     (MetricConfig conf = [] \<or> tcp_addr (MetricConfig conf)) \<and>
     1 \<le> IntervalSecs conf \<and> IntervalSecs conf \<le> 300 \<and>
     diveStatIntervals 0 (StatIntervals conf) = [] \<and>
     mqttRules (MqttConfig conf) = [] \<and> sensorRules (SensorConfig conf) = []"
  by (auto simp: Validate_def Let_def split: if_splits)

lemma Validate_element_out_of_range:
  assumes "val \<in> set (StatIntervals conf)" and "val < 10 \<or> 3600 < val"
  shows "Validate tcp_addr mqttRules sensorRules conf \<noteq> None"
proof -
  have "\<not> (\<forall>v\<in>set (StatIntervals conf). 10 \<le> v \<and> v \<le> 3600)"
    using assms by fastforce
  then have "diveStatIntervals 0 (StatIntervals conf) \<noteq> []"
    by (simp only: diveStatIntervals_empty_iff not_False_eq_True)
  then show ?thesis
    by (simp add: Validate_None_iff)
qed

text \<open>
  Claim C5. When \<^verbatim>\<open>StatIntervals\<close> has an element below 10 or above 3600, for example
  the element 5, the declarative \<^verbatim>\<open>Validate\<close> returns an error, whatever the other
  fields are. The rule under \<^verbatim>\<open>dive\<close> collects no error exactly when every element is
  in \<open>[10, 3600]\<close>.
\<close>

theorem Validate_dive_bounds:
  "((\<exists>val\<in>set (StatIntervals conf). val < 10 \<or> 3600 < val) \<longrightarrow>
      Validate tcp_addr mqttRules sensorRules conf \<noteq> None) \<and>
   (5 \<in> set (StatIntervals conf) \<longrightarrow>
      Validate tcp_addr mqttRules sensorRules conf \<noteq> None) \<and>
   (diveStatIntervals 0 (StatIntervals conf) = [] \<longleftrightarrow>
      (\<forall>val\<in>set (StatIntervals conf). 10 \<le> val \<and> val \<le> 3600))"
proof (intro conjI impI)
  assume "\<exists>val\<in>set (StatIntervals conf). val < 10 \<or> 3600 < val"
  then obtain val where "val \<in> set (StatIntervals conf)" "val < 10 \<or> 3600 < val"
    by blast
  then show "Validate tcp_addr mqttRules sensorRules conf \<noteq> None"
    by (rule Validate_element_out_of_range)
next
  assume "5 \<in> set (StatIntervals conf)"
  then show "Validate tcp_addr mqttRules sensorRules conf \<noteq> None"
    by (rule Validate_element_out_of_range) simp
next
  show "diveStatIntervals 0 (StatIntervals conf) = [] \<longleftrightarrow>
      (\<forall>val\<in>set (StatIntervals conf). 10 \<le> val \<and> val \<le> 3600)"
    by (rule diveStatIntervals_empty_iff)
qed

theorem Validate_dive_bounds_witness:
  "5 \<in> set (StatIntervals (sampleConfig\<lparr>StatIntervals := [15, 5]\<rparr>)) \<and>
   Validate (\<lambda>a. True) (\<lambda>m. []) (\<lambda>s. []) (sampleConfig\<lparr>StatIntervals := [15, 5]\<rparr>) \<noteq> None \<and>
   Validate (\<lambda>a. True) (\<lambda>m. []) (\<lambda>s. []) (sampleConfig\<lparr>StatIntervals := [15, 5]\<rparr>) =
     Some (ValidationErrors [ElementError ''StatIntervals'' 1 ''min'']) \<and>
   Validate (\<lambda>a. True) (\<lambda>m. []) (\<lambda>s. []) (sampleConfig\<lparr>StatIntervals := [3601]\<rparr>) \<noteq> None \<and>
   diveStatIntervals 0 (StatIntervals sampleConfig) = []"
proof -
  have v: "Validate (\<lambda>a. True) (\<lambda>m. []) (\<lambda>s. []) (sampleConfig\<lparr>StatIntervals := [15, 5]\<rparr>) =
     Some (ValidationErrors [ElementError ''StatIntervals'' 1 ''min''])"
    by (simp add: Validate_def sampleConfig_fields diveStatIntervals_Cons diveStatIntervals_Nil)
  show ?thesis
    using v
      Validate_dive_bounds [of "sampleConfig\<lparr>StatIntervals := [15, 5]\<rparr>" "\<lambda>a. True" "\<lambda>m. []" "\<lambda>s. []"]
      Validate_dive_bounds [of "sampleConfig\<lparr>StatIntervals := [3601]\<rparr>" "\<lambda>a. True" "\<lambda>m. []" "\<lambda>s. []"]
      Validate_dive_bounds [of sampleConfig "\<lambda>a. True" "\<lambda>m. []" "\<lambda>s. []"]
    by (simp add: sampleConfig_fields)
qed

subsection \<open>Reading a file\<close>

text \<open>
  Claim C8. When the file cannot be read, \<^verbatim>\<open>ReadJsonConfig\<close> returns nil and the read
  error. When it can be read and \<^verbatim>\<open>json.Unmarshal\<close> returns an error, the result is a
  configuration, the one \<^verbatim>\<open>json.Unmarshal\<close> left in the value that started as
  \<^verbatim>\<open>DefaultConfig\<close>, together with that error; a readable file always gives a
  configuration.
\<close>

theorem ReadJsonConfig_errors:
  "(ReadFile filePath = Inl msg \<longrightarrow>
      ReadJsonConfig ReadFile Unmarshal defaultSensorConfig filePath =
        (None, Some (CouldNotRead msg))) \<and>
   (ReadFile filePath = Inr fileContent \<and>
    Unmarshal fileContent (DefaultConfig defaultSensorConfig) = (ret, Some err) \<longrightarrow>
      ReadJsonConfig ReadFile Unmarshal defaultSensorConfig filePath =
        (Some ret, Some (Foreign err))) \<and>
   (ReadFile filePath = Inr fileContent \<longrightarrow>
      fst (ReadJsonConfig ReadFile Unmarshal defaultSensorConfig filePath) =
        Some (fst (Unmarshal fileContent (DefaultConfig defaultSensorConfig))))"
  by (simp add: ReadJsonConfig_def Let_def split: prod.splits)

theorem ReadJsonConfig_errors_witness:
  "ReadJsonConfig sampleReadFile sampleUnmarshal sampleSensorConfig ''missing.json'' =
     (None, Some (CouldNotRead ''no such file or directory'')) \<and>
   ReadJsonConfig sampleReadFile sampleUnmarshal sampleSensorConfig ''config.json'' =
     (Some (DefaultConfig sampleSensorConfig), Some (Foreign ''unexpected end of JSON input''))"
  using ReadJsonConfig_errors [of sampleReadFile "''missing.json''"
      "''no such file or directory''" sampleUnmarshal sampleSensorConfig]
    ReadJsonConfig_errors [of sampleReadFile "''config.json''" _ sampleUnmarshal
      sampleSensorConfig "''{''" "DefaultConfig sampleSensorConfig"
      "''unexpected end of JSON input''"]
  by (simp add: sampleReadFile_def sampleUnmarshal_def)

end
